theory Spec2Isabelle
  imports Main
begin

section \<open>Column reconciliation of \<open>MatrixMerge.put\<close> (matrix/api.py)\<close>

subsection \<open>Decimal rendering of the suffix\<close>

text \<open>
  The rename loop builds \<^verbatim>\<open>colname + '_{0}'.format(i)\<close> for a positive Python int
  \<open>i\<close>: the column name, an underscore and the decimal digits of \<open>i\<close> without leading
  zeros.
\<close>

definition digit_char :: "nat \<Rightarrow> char" where
  "digit_char d = ''0123456789'' ! d"

fun format_int :: "nat \<Rightarrow> string" where
  "format_int n =
     (if n < 10 then [digit_char n] else format_int (n div 10) @ [digit_char (n mod 10)])"

declare format_int.simps [simp del]

definition suffixed :: "string \<Rightarrow> nat \<Rightarrow> string" where
  "suffixed colname i = colname @ ''_'' @ format_int i"

subsection \<open>The suffix search (api.py, lines 206 to 211)\<close>

text \<open>
  \<^verbatim>\<open>
  i = 0  # Suffix to rename
  while True:
      i += 1
      new_name = colname + '_{0}'.format(i)
      if new_name not in dst_df.columns:
          break
  \<close>
  The loop is entered with the counter \<open>i\<close>; it only compares the candidate with the
  destination's column names.
\<close>

lemma digit_char_inj:
  "a < 10 \<Longrightarrow> b < 10 \<Longrightarrow> digit_char a = digit_char b \<Longrightarrow> a = b"
proof -
  assume a: "a < 10" and b: "b < 10" and e: "digit_char a = digit_char b"
  have d: "distinct ''0123456789''" by simp
  have l: "length ''0123456789'' = 10" by simp
  from e have "''0123456789'' ! a = ''0123456789'' ! b" by (simp only: digit_char_def)
  with d a b l show "a = b" by (simp only: nth_eq_iff_index_eq)
qed

lemma format_int_nonempty: "format_int n \<noteq> []"
  by (subst format_int.simps) simp

lemma format_int_inj: "format_int n = format_int m \<Longrightarrow> n = m"
proof (induction n arbitrary: m rule: format_int.induct)
  case (1 n)
  show ?case
  proof (cases "n < 10")
    case small_n: True
    show ?thesis
    proof (cases "m < 10")
      case True
      with small_n "1.prems" show ?thesis
        by (simp add: format_int.simps [of n] format_int.simps [of m] digit_char_inj)
    next
      case False
      with small_n "1.prems" format_int_nonempty [of "m div 10"] show ?thesis
        by (simp add: format_int.simps [of n] format_int.simps [of m])
    qed
  next
    case big_n: False
    show ?thesis
    proof (cases "m < 10")
      case True
      with big_n "1.prems" format_int_nonempty [of "n div 10"] show ?thesis
        by (simp add: format_int.simps [of n] format_int.simps [of m])
    next
      case False
      with big_n "1.prems"
      have e: "format_int (n div 10) = format_int (m div 10)"
        and d: "digit_char (n mod 10) = digit_char (m mod 10)"
        by (simp_all add: format_int.simps [of n] format_int.simps [of m])
      from "1.IH" [OF big_n e] have q: "n div 10 = m div 10" .
      from d have r: "n mod 10 = m mod 10" by (auto intro: digit_char_inj)
      have "n = 10 * (n div 10) + n mod 10" by simp
      also have "\<dots> = 10 * (m div 10) + m mod 10" using q r by simp
      also have "\<dots> = m" by simp
      finally show ?thesis .
    qed
  qed
qed

lemma suffixed_inj: "suffixed c i = suffixed c j \<Longrightarrow> i = j"
  by (simp add: suffixed_def format_int_inj)

function rename_search :: "string list \<Rightarrow> string \<Rightarrow> nat \<Rightarrow> string" where
  "rename_search dst_columns colname i =
     (let i' = i + 1;
          new_name = suffixed colname i'
      in if new_name \<notin> set dst_columns then new_name
         else rename_search dst_columns colname i')"
  by pat_completeness auto

termination
proof (relation "measure (\<lambda>(dst_columns, colname, i).
         card {n \<in> set dst_columns. \<exists>j>i. n = suffixed colname j})")
  show "wf (measure (\<lambda>(dst_columns, colname, i).
         card {n \<in> set dst_columns. \<exists>j>i. n = suffixed colname j}))"
    by simp
next
  fix dst_columns :: "string list" and colname new_name :: string and i x :: nat
  assume x: "x = i + 1"
    and nn: "new_name = suffixed colname x" "\<not> new_name \<notin> set dst_columns"
  let ?A = "{n \<in> set dst_columns. \<exists>j>x. n = suffixed colname j}"
  let ?B = "{n \<in> set dst_columns. \<exists>j>i. n = suffixed colname j}"
  have mem: "suffixed colname x \<in> ?B" using x nn by auto
  have nmem: "suffixed colname x \<notin> ?A" by (auto dest: suffixed_inj)
  have "?A \<subseteq> ?B"
  proof
    fix n assume "n \<in> ?A"
    then obtain j where "n \<in> set dst_columns" "x < j" "n = suffixed colname j" by blast
    with x have "n \<in> set dst_columns" "i < j" "n = suffixed colname j" by simp_all
    then show "n \<in> ?B" by blast
  qed
  with mem nmem have "?A \<subset> ?B" by blast
  moreover have "finite ?B" by simp
  ultimately have "card ?A < card ?B" by (rule psubset_card_mono [rotated])
  then show "((dst_columns, colname, x), dst_columns, colname, i)
      \<in> measure (\<lambda>(dst_columns, colname, i).
         card {n \<in> set dst_columns. \<exists>j>i. n = suffixed colname j})"
    by simp
qed

declare rename_search.simps [simp del]

subsection \<open>The rename pass (api.py, lines 193 to 212)\<close>

text \<open>
  \<^verbatim>\<open>
  autorename_column_names = []
  for colname in list(src_df.columns):
      if colname == right_on:
          autorename_column_names.append(colname); continue
      if colname not in dst_df.columns:
          autorename_column_names.append(colname); continue
      ... the suffix search ...
      autorename_column_names.append(new_name)
  \<close>
  The last argument is the list built so far.
\<close>

fun autorename :: "string list \<Rightarrow> string \<Rightarrow> string list \<Rightarrow> string list \<Rightarrow> string list" where
  "autorename dst_columns right_on [] names = names"
| "autorename dst_columns right_on (colname # rest) names =
     (if colname = right_on then autorename dst_columns right_on rest (names @ [colname])
      else if colname \<notin> set dst_columns
        then autorename dst_columns right_on rest (names @ [colname])
      else autorename dst_columns right_on rest
             (names @ [rename_search dst_columns colname 0]))"

section \<open>Tables, workflows and the store\<close>

datatype cell = Str string | Num int | Bool bool | Null

text \<open>
  A data frame is its columns in order, each a name and its values. The wire format of a
  table (a mapping from column name to the list of its values) has the same shape.
\<close>

type_synonym dataframe = "(string \<times> cell list) list"

definition columns :: "dataframe \<Rightarrow> string list" where
  "columns df = map fst df"

datatype exn = APIException string | Http404 | KeyError string | TypeError

text \<open>
  \<^verbatim>\<open>df[name]\<close>: subscripting \<^verbatim>\<open>None\<close> (no stored table) is a TypeError, a name
  that is not a column is pandas' KeyError.
\<close>

definition getitem :: "dataframe option \<Rightarrow> string \<Rightarrow> exn + cell list" where
  "getitem df name =
     (case df of
        None \<Rightarrow> Inl TypeError
      | Some d \<Rightarrow> (case map_of d name of None \<Rightarrow> Inl (KeyError name) | Some col \<Rightarrow> Inr col))"

record user =
  user_id :: nat
  is_superuser :: bool

record workflow =
  wf_user :: nat
  wf_session_key :: string

record state =
  workflows :: "nat \<rightharpoonup> workflow"
  matrices :: "nat \<rightharpoonup> dataframe"

text \<open>
  What the serializer hands back for \<^verbatim>\<open>request.data\<close>: \<^verbatim>\<open>is_valid()\<close> is false and
  \<^verbatim>\<open>serializer.errors\<close> is set, or it is true and \<^verbatim>\<open>validated_data\<close> is set.
\<close>

datatype 'a parsed = Invalid string | Valid 'a

record merge_data =
  src_df :: dataframe
  how :: string
  left_on :: string
  right_on :: string
  dup_column :: string

text \<open>
  The body of a response: nothing, the serializer's errors, the data of a
  DataFrameSerializer, or the data of a DataFrameMergeSerializer (its \<^verbatim>\<open>src_df\<close>,
  \<^verbatim>\<open>how\<close>, \<^verbatim>\<open>left_on\<close>, \<^verbatim>\<open>right_on\<close> and \<^verbatim>\<open>dup_column\<close>).
\<close>

datatype body =
    NoBody
  | Errors string
  | FrameData "dataframe option"
  | MergeData "dataframe option" string string string string

datatype response = Response body nat

text \<open>
  The dictionary handed to the merge. \<^verbatim>\<open>override_columns_names\<close> is
  \<^verbatim>\<open>list(set)\<close>, whose order Python does not fix: the field holds the set.
\<close>

record merge_info =
  how_merge :: string
  dst_selected_key :: string
  src_selected_key :: string
  initial_column_names :: "string list"
  autorename_column_names :: "string list option"
  rename_column_names :: "string list"
  columns_to_upload :: "bool list"
  override_columns_names :: "string set"

text \<open>
  What a call of \<^verbatim>\<open>ops.perform_dataframe_upload_merge\<close> can do: raise, or return a
  value (\<^verbatim>\<open>None\<close> or a message).
\<close>

datatype outcome = Raised | Returned "string option"

text \<open>
  The collaborators of the handlers that are not among the sources are parameters:
  \<^verbatim>\<open>workflow.ops.is_locked\<close>, the \<^verbatim>\<open>pd.DataFrame\<close> constructor on validated data
  (\<open>None\<close> when it raises), \<^verbatim>\<open>ops.detect_datetime_columns\<close> (\<open>None\<close> when it
  raises) and \<^verbatim>\<open>ops.perform_dataframe_upload_merge\<close>, which may change the store.
\<close>

record env =
  is_locked :: "workflow \<Rightarrow> bool"
  pd_DataFrame :: "dataframe \<Rightarrow> dataframe option"
  detect_datetime_columns :: "dataframe \<Rightarrow> dataframe option"
  perform_dataframe_upload_merge ::
    "nat \<Rightarrow> dataframe \<Rightarrow> dataframe \<Rightarrow> merge_info \<Rightarrow> state \<Rightarrow> outcome \<times> state"

text \<open>
  Modelled from the spec: \<^verbatim>\<open>pandas_db.load_from_db\<close> is not among the sources. The
  table store loads a table by workflow identifier, \<^verbatim>\<open>None\<close> when there is none.
\<close>

definition load_from_db :: "state \<Rightarrow> nat \<Rightarrow> dataframe option" where
  "load_from_db st pk = matrices st pk"

text \<open>
  Modelled from the spec: \<^verbatim>\<open>ops.store_dataframe_in_db\<close> is not among the sources. The
  table store stores a table by workflow identifier, replacing the one there.
\<close>

definition store_dataframe_in_db :: "dataframe \<Rightarrow> nat \<Rightarrow> state \<Rightarrow> state" where
  "store_dataframe_in_db df pk st = st\<lparr>matrices := (matrices st)(pk \<mapsto> df)\<rparr>"

text \<open>
  Modelled from the spec: \<^verbatim>\<open>workflow.ops.detach_dataframe\<close> is not among the sources.
  It clears the stored table of the workflow; the workflow record is untouched.
\<close>

definition detach_dataframe :: "nat \<Rightarrow> state \<Rightarrow> state" where
  "detach_dataframe pk st = st\<lparr>matrices := (matrices st)(pk := None)\<rparr>"

text \<open>
  Modelled from the spec: \<^verbatim>\<open>ops.is_unique_column\<close> is not among the sources. Every
  value of the column is unique; two nulls count as a duplicate.
\<close>

definition is_unique_column :: "cell list \<Rightarrow> bool" where
  "is_unique_column col = distinct col"

text \<open>
  \<^verbatim>\<open>Workflow.objects.get(pk=pk)\<close> and \<^verbatim>\<open>Workflow.objects.get(pk=pk, user=user)\<close>:
  \<open>None\<close> stands for \<^verbatim>\<open>Workflow.DoesNotExist\<close>.
\<close>

definition objects_get :: "state \<Rightarrow> nat \<Rightarrow> user option \<Rightarrow> workflow option" where
  "objects_get st pk owner =
     (case workflows st pk of
        None \<Rightarrow> None
      | Some w \<Rightarrow>
          (case owner of
             None \<Rightarrow> Some w
           | Some u \<Rightarrow> if wf_user w = user_id u then Some w else None))"

section \<open>The handlers of matrix/api.py\<close>

text \<open>
  \<open>MatrixOps.get_object\<close> and \<open>MatrixMerge.get_object\<close> have the same text: the lookup
  (restricted to the user's own workflows unless the user is a superuser), then the lock.
\<close>

definition get_object :: "env \<Rightarrow> state \<Rightarrow> user \<Rightarrow> nat \<Rightarrow> exn + workflow" where
  "get_object e st u pk =
     (case (if is_superuser u then objects_get st pk None else objects_get st pk (Some u)) of
        None \<Rightarrow> Inl (APIException ''Incorrect object'')
      | Some wflow \<Rightarrow>
          if is_locked e wflow then Inl (APIException ''Workflow is locked by another user'')
          else Inr wflow)"

subsection \<open>MatrixOps\<close>

definition MatrixOps_override ::
  "env \<Rightarrow> user \<Rightarrow> nat \<Rightarrow> dataframe parsed \<Rightarrow> state \<Rightarrow> (exn + response) \<times> state" where
  "MatrixOps_override e u pk request st =
     (case get_object e st u pk of
        Inl err \<Rightarrow> (Inl err, st)
      | Inr wflow \<Rightarrow>
          (case request of
             Valid validated_data \<Rightarrow>
               (case Option.bind (pd_DataFrame e validated_data) (detect_datetime_columns e) of
                  None \<Rightarrow> (Inl Http404, st)
                | Some df \<Rightarrow>
                    (Inr (Response (FrameData (Some validated_data)) 201),
                     store_dataframe_in_db df pk st))
           | Invalid errors \<Rightarrow> (Inr (Response (Errors errors) 400), st)))"

definition MatrixOps_get ::
  "env \<Rightarrow> user \<Rightarrow> nat \<Rightarrow> state \<Rightarrow> (exn + response) \<times> state" where
  "MatrixOps_get e u pk st =
     (case get_object e st u pk of
        Inl err \<Rightarrow> (Inl err, st)
      | Inr wflow \<Rightarrow> (Inr (Response (FrameData (load_from_db st pk)) 200), st))"

definition MatrixOps_post ::
  "env \<Rightarrow> user \<Rightarrow> nat \<Rightarrow> dataframe parsed \<Rightarrow> state \<Rightarrow> (exn + response) \<times> state" where
  "MatrixOps_post e u pk request st =
     (if load_from_db st pk \<noteq> None
      then (Inl (APIException ''Post request requires workflow without a matrix''), st)
      else MatrixOps_override e u pk request st)"

definition MatrixOps_put ::
  "env \<Rightarrow> user \<Rightarrow> nat \<Rightarrow> dataframe parsed \<Rightarrow> state \<Rightarrow> (exn + response) \<times> state" where
  "MatrixOps_put e u pk request st = MatrixOps_override e u pk request st"

definition MatrixOps_delete ::
  "env \<Rightarrow> user \<Rightarrow> nat \<Rightarrow> state \<Rightarrow> (exn + response) \<times> state" where
  "MatrixOps_delete e u pk st =
     (case get_object e st u pk of
        Inl err \<Rightarrow> (Inl err, st)
      | Inr wflow \<Rightarrow> (Inr (Response NoBody 204), detach_dataframe pk st))"

subsection \<open>MatrixMerge\<close>

definition MatrixMerge_get ::
  "env \<Rightarrow> user \<Rightarrow> nat \<Rightarrow> state \<Rightarrow> (exn + response) \<times> state" where
  "MatrixMerge_get e u pk st =
     (case get_object e st u pk of
        Inl err \<Rightarrow> (Inl err, st)
      | Inr wflow \<Rightarrow>
          (Inr (Response (MergeData (load_from_db st pk) '''' '''' '''' '''') 200), st))"

text \<open>
  The parameter checks of \<open>MatrixMerge.put\<close> (lines 160 to 182), in the order of the
  source. Each \<^verbatim>\<open>raise\<close> is an \<open>Inl\<close>; when all pass, the result is the destination
  frame that line 167 subscripted.
\<close>

definition check_parameters :: "dataframe option \<Rightarrow> dataframe \<Rightarrow> merge_data \<Rightarrow> exn + dataframe" where
  "check_parameters dst_df src vd =
     (if how vd = '''' \<or> how vd \<notin> set [''left'', ''right'', ''outer'', ''inner'']
      then Inl (APIException ''how must be one of left, right, outer or inner'')
      else
        (case getitem dst_df (left_on vd) of
           Inl err \<Rightarrow> Inl err
         | Inr dst_key \<Rightarrow>
             if \<not> is_unique_column dst_key
             then Inl (APIException (''column'' @ left_on vd @ ''does not contain a unique key.''))
             else if right_on vd \<notin> set (columns src)
             then Inl (APIException (''column '' @ right_on vd @ '' not found in data frame''))
             else
               (case getitem (Some src) (right_on vd) of
                  Inl err \<Rightarrow> Inl err
                | Inr src_key \<Rightarrow>
                    if \<not> is_unique_column src_key
                    then Inl (APIException
                           (''column'' @ right_on vd @ ''does not contain a unique key.''))
                    else if dup_column vd = '''' \<or> dup_column vd \<notin> set [''override'', ''rename'']
                    then Inl (APIException ''dup_column must be override or rename'')
                    else (case dst_df of None \<Rightarrow> Inl TypeError | Some dst \<Rightarrow> Inr dst))))"

text \<open>The merge dictionary (lines 184 to 223).\<close>

definition build_merge_info :: "dataframe \<Rightarrow> dataframe \<Rightarrow> merge_data \<Rightarrow> merge_info" where
  "build_merge_info dst src vd =
     \<lparr>how_merge = how vd,
      dst_selected_key = left_on vd,
      src_selected_key = right_on vd,
      initial_column_names = columns src,
      autorename_column_names =
        (if dup_column vd = ''override'' then None
         else Some (autorename (columns dst) (right_on vd) (columns src) [])),
      rename_column_names = columns src,
      columns_to_upload = replicate (length (columns src)) True,
      override_columns_names =
        (if dup_column vd = ''override''
         then set (columns dst) \<inter> set (columns src) - {left_on vd}
         else {})\<rparr>"

text \<open>
  \<open>MatrixMerge.put\<close>. A returned \<^verbatim>\<open>merge_result\<close> is an error when it is truthy:
  a message that is not empty.
\<close>

definition MatrixMerge_put ::
  "env \<Rightarrow> user \<Rightarrow> nat \<Rightarrow> merge_data parsed \<Rightarrow> state \<Rightarrow> (exn + response) \<times> state" where
  "MatrixMerge_put e u pk request st =
     (case get_object e st u pk of
        Inl err \<Rightarrow> (Inl err, st)
      | Inr wflow \<Rightarrow>
          (case request of
             Invalid errors \<Rightarrow> (Inr (Response (Errors errors) 400), st)
           | Valid vd \<Rightarrow>
               (case pd_DataFrame e (src_df vd) of
                  None \<Rightarrow> (Inl (APIException ''Unable to load workflow matrix''), st)
                | Some src \<Rightarrow>
                    (case check_parameters (load_from_db st pk) src vd of
                       Inl err \<Rightarrow> (Inl err, st)
                     | Inr dst \<Rightarrow>
                         (case perform_dataframe_upload_merge e pk dst src
                                 (build_merge_info dst src vd) st of
                            (Raised, st') \<Rightarrow>
                              (Inl (APIException ''Unable to perform merge operation''), st')
                          | (Returned merge_result, st') \<Rightarrow>
                              (case merge_result of
                                 None \<Rightarrow>
                                   (Inr (Response
                                      (MergeData (Some (src_df vd)) (how vd) (left_on vd)
                                         (right_on vd) (dup_column vd)) 201), st')
                               | Some msg \<Rightarrow>
                                   if msg = ''''
                                   then (Inr (Response
                                      (MergeData (Some (src_df vd)) (how vd) (left_on vd)
                                         (right_on vd) (dup_column vd)) 201), st')
                                   else (Inl (APIException msg), st')))))))"

section \<open>RestrictedFileField (ontask/forms.py)\<close>

text \<open>
  \<^verbatim>\<open>max_upload_size\<close> holds what the caller passed, or, when that is missing or falsy,
  \<^verbatim>\<open>str(ontask.ontask_prefs.MAX_UPLOAD_SIZE)\<close>: a string.
\<close>

datatype pyval = PyInt int | PyStr string

record restricted_file_field =
  content_types :: "string list option"
  max_upload_size :: pyval

text \<open>
  The cleaned value is a Python object of which \<open>clean\<close> reads two attributes;
  \<open>None\<close> stands for an object without that attribute (reading it raises
  AttributeError).
\<close>

record cleaned =
  file_name :: string
  content_type :: "string option"
  size :: "int option"

datatype message = FileTooLarge pyval int | UnsupportedType string

datatype clean_exn = ValidationError message | PyTypeError

definition truthy :: "pyval \<Rightarrow> bool" where
  "truthy v = (case v of PyInt n \<Rightarrow> n \<noteq> 0 | PyStr s \<Rightarrow> s \<noteq> '''')"

text \<open>
  \<open>__init__\<close>: the two keyword arguments (\<open>None\<close> when not given) and the text of
  \<^verbatim>\<open>str(ontask.ontask_prefs.MAX_UPLOAD_SIZE)\<close>, a preference that is not among the
  sources.
\<close>

definition RestrictedFileField_init ::
  "string \<Rightarrow> string list option \<Rightarrow> pyval option \<Rightarrow> restricted_file_field" where
  "RestrictedFileField_init max_upload_pref cts mx =
     \<lparr>content_types = cts,
      max_upload_size =
        (case mx of
           None \<Rightarrow> PyStr max_upload_pref
         | Some v \<Rightarrow> if \<not> truthy v then PyStr max_upload_pref else v)\<rparr>"

text \<open>
  \<^verbatim>\<open>data.size > self.max_upload_size\<close>. Two ints compare as numbers. An int against a
  string depends on the interpreter: Python 2 orders every number before every string, so
  the comparison is false; Python 3 raises TypeError.
\<close>

datatype python = Python2 | Python3

definition size_gt :: "python \<Rightarrow> int \<Rightarrow> pyval \<Rightarrow> clean_exn + bool" where
  "size_gt py sz mx =
     (case mx of
        PyInt m \<Rightarrow> Inr (sz > m)
      | PyStr s \<Rightarrow> (case py of Python2 \<Rightarrow> Inr False | Python3 \<Rightarrow> Inl PyTypeError))"

text \<open>
  \<open>clean\<close>. The third argument is what \<^verbatim>\<open>super().clean\<close> did: raise, or return the
  value. With \<^verbatim>\<open>content_types\<close> left at \<^verbatim>\<open>None\<close> the membership test raises
  TypeError, which the handler does not catch.
\<close>

definition clean ::
  "python \<Rightarrow> restricted_file_field \<Rightarrow> clean_exn + 'a cleaned_scheme \<Rightarrow> clean_exn + 'a cleaned_scheme" where
  "clean py field super_clean =
     (case super_clean of
        Inl err \<Rightarrow> Inl err
      | Inr data \<Rightarrow>
          (case content_type data of
             None \<Rightarrow> Inr data
           | Some ct \<Rightarrow>
               (case content_types field of
                  None \<Rightarrow> Inl PyTypeError
                | Some allowed \<Rightarrow>
                    if ct \<in> set allowed
                    then
                      (case size data of
                         None \<Rightarrow> Inr data
                       | Some sz \<Rightarrow>
                           (case size_gt py sz (max_upload_size field) of
                              Inl err \<Rightarrow> Inl err
                            | Inr too_big \<Rightarrow>
                                if too_big
                                then Inl (ValidationError
                                       (FileTooLarge (max_upload_size field) sz))
                                else Inr data))
                    else Inl (ValidationError (UnsupportedType ct)))))"

section \<open>The join executor and an example installation\<close>

text \<open>
  Modelled from the spec: \<^verbatim>\<open>ops.perform_dataframe_upload_merge\<close> is not among the
  sources. Section 4.3: (a) the columns to drop leave the destination, the source columns
  take their new names; (b) rows are matched on the key; (c) the result has the surviving
  destination columns, the key once, then the source columns but the key. \<open>inner\<close> keeps
  the matched rows, \<open>left\<close> every destination row, \<open>right\<close> every source row,
  \<open>outer\<close> both; rows of the destination come first in their order, rows only the
  source has follow in the source's order; a missing side is null. The join fails when no
  column is left or the key is not exactly one column on each side. The result is
  persisted; a failure is reported as a message and persists nothing.
\<close>

fun index_of :: "'a \<Rightarrow> 'a list \<Rightarrow> nat option" where
  "index_of x [] = None"
| "index_of x (y # ys) = (if x = y then Some 0 else map_option Suc (index_of x ys))"

definition pick :: "cell list \<Rightarrow> nat option \<Rightarrow> cell" where
  "pick vs i = (case i of None \<Rightarrow> Null | Some n \<Rightarrow> if n < length vs then vs ! n else Null)"

definition join_rows :: "string \<Rightarrow> cell list \<Rightarrow> cell list \<Rightarrow> (nat option \<times> nat option) list" where
  "join_rows h kd ks =
     (let matched = map (\<lambda>i. (Some i, index_of (kd ! i) ks)) [0..<length kd];
          dst_rows = (if h = ''left'' \<or> h = ''outer'' then matched
                      else filter (\<lambda>(a, b). b \<noteq> None) matched);
          src_rows = (if h = ''right'' \<or> h = ''outer''
                      then map (\<lambda>j. (None, Some j))
                             (filter (\<lambda>j. index_of (ks ! j) kd = None) [0..<length ks])
                      else [])
      in dst_rows @ src_rows)"

definition join_tables :: "dataframe \<Rightarrow> dataframe \<Rightarrow> merge_info \<Rightarrow> dataframe option" where
  "join_tables dst src info =
     (let l = dst_selected_key info;
          r = src_selected_key info;
          dst' = filter (\<lambda>(c, vs). c \<notin> override_columns_names info) dst;
          src' = (case autorename_column_names info of
                    None \<Rightarrow> src
                  | Some names \<Rightarrow> map (\<lambda>(n, (c, vs)). (n, vs)) (zip names src))
      in if length (filter (\<lambda>c. c = l) (columns dst')) = 1
            \<and> length (filter (\<lambda>c. c = r) (columns src')) = 1
         then
           (case (map_of dst' l, map_of src' r) of
              (Some kd, Some ks) \<Rightarrow>
                (let rows = join_rows (how_merge info) kd ks;
                     out_dst = map (\<lambda>(c, vs). (c, map (\<lambda>(a, b).
                                  if c = l then (if a = None then pick ks b else pick kd a)
                                  else pick vs a) rows)) dst';
                     out_src = map (\<lambda>(c, vs). (c, map (\<lambda>(a, b). pick vs b) rows))
                                 (filter (\<lambda>(c, vs). c \<noteq> r) src')
                 in Some (out_dst @ out_src))
            | _ \<Rightarrow> None)
         else None)"

definition perform_merge_model ::
  "nat \<Rightarrow> dataframe \<Rightarrow> dataframe \<Rightarrow> merge_info \<Rightarrow> state \<Rightarrow> outcome \<times> state" where
  "perform_merge_model pk dst src info st =
     (case join_tables dst src info of
        None \<Rightarrow> (Returned (Some ''JoinExecutionError''), st)
      | Some merged \<Rightarrow> (Returned None, store_dataframe_in_db merged pk st))"

text \<open>
  An installation to run the handlers on: a workflow is locked when it has a session key,
  \<^verbatim>\<open>pd.DataFrame\<close> refuses columns of different lengths, no column holds dates.
\<close>

definition same_lengths :: "dataframe \<Rightarrow> bool" where
  "same_lengths d = (case d of [] \<Rightarrow> True | (c, vs) # rest \<Rightarrow> list_all (\<lambda>(c', vs'). length vs' = length vs) rest)"

definition example_env :: env where
  "example_env =
     \<lparr>is_locked = (\<lambda>w. wf_session_key w \<noteq> ''''),
      pd_DataFrame = (\<lambda>d. if same_lengths d then Some d else None),
      detect_datetime_columns = Some,
      perform_dataframe_upload_merge = perform_merge_model\<rparr>"

definition spec_dst :: dataframe where
  "spec_dst = [(''id'', [Num 1, Num 2]), (''name'', [Str ''ann'', Str ''bob''])]"

definition spec_src :: dataframe where
  "spec_src = [(''id'', [Num 2, Num 3]), (''name'', [Str ''bea'', Str ''cy''])]"

definition clash_src :: dataframe where
  "clash_src = [(''id'', [Num 2, Num 3]), (''name_1'', [Str ''x'', Str ''y'']),
     (''name'', [Str ''bea'', Str ''cy''])]"

definition people_dst :: dataframe where
  "people_dst = [(''id'', [Num 1, Num 2]), (''name'', [Str ''ann'', Str ''bob'']),
     (''age'', [Num 30, Num 41])]"

definition coded_dst :: dataframe where
  "coded_dst = [(''id'', [Num 1, Num 2]), (''code'', [Str ''p'', Str ''q'']),
     (''name'', [Str ''ann'', Str ''bob''])]"

definition coded_src :: dataframe where
  "coded_src = [(''code'', [Str ''q'', Str ''r'']), (''name'', [Str ''bea'', Str ''cy''])]"

definition merge_request ::
  "dataframe \<Rightarrow> string \<Rightarrow> string \<Rightarrow> string \<Rightarrow> string \<Rightarrow> merge_data" where
  "merge_request d h l r p = \<lparr>src_df = d, how = h, left_on = l, right_on = r, dup_column = p\<rparr>"

text \<open>
  Workflow 1 is free and has a table, workflow 2 is locked and has a table, workflow 3 is
  free and has none; all belong to user 7.
\<close>

definition example_state :: state where
  "example_state =
     \<lparr>workflows = [1 \<mapsto> \<lparr>wf_user = 7, wf_session_key = ''''\<rparr>,
                   2 \<mapsto> \<lparr>wf_user = 7, wf_session_key = ''s1''\<rparr>,
                   3 \<mapsto> \<lparr>wf_user = 7, wf_session_key = ''''\<rparr>],
      matrices = [1 \<mapsto> spec_dst, 2 \<mapsto> spec_dst]\<rparr>"

definition instructor :: user where
  "instructor = \<lparr>user_id = 7, is_superuser = False\<rparr>"

definition stranger :: user where
  "stranger = \<lparr>user_id = 8, is_superuser = False\<rparr>"

section \<open>Failed requests, in the words of the spec\<close>

text \<open>
  The failures the spec lists for a merge request: a join type that is not one of the
  four, a key that is missing or not unique on either side, a dup policy that is not one
  of the two. Where the workflow has no stored table the destination key is missing.
\<close>

definition key_fails :: "dataframe \<Rightarrow> string \<Rightarrow> bool" where
  "key_fails table key =
     (case map_of table key of None \<Rightarrow> True | Some col \<Rightarrow> \<not> distinct col)"

definition validation_fails :: "dataframe option \<Rightarrow> dataframe \<Rightarrow> merge_data \<Rightarrow> bool" where
  "validation_fails dst_df src vd \<longleftrightarrow>
     how vd \<notin> set [''left'', ''right'', ''outer'', ''inner'']
     \<or> (case dst_df of None \<Rightarrow> True | Some dst \<Rightarrow> key_fails dst (left_on vd))
     \<or> key_fails src (right_on vd)
     \<or> dup_column vd \<notin> set [''override'', ''rename'']"

text \<open>
  A failed request: one the serializer refuses, one whose source table cannot be built,
  or one that fails validation against what is stored for the workflow.
\<close>

definition request_fails :: "env \<Rightarrow> state \<Rightarrow> nat \<Rightarrow> merge_data parsed \<Rightarrow> bool" where
  "request_fails e st pk request =
     (case request of
        Invalid errors \<Rightarrow> True
      | Valid vd \<Rightarrow>
          (case pd_DataFrame e (src_df vd) of
             None \<Rightarrow> True
           | Some src \<Rightarrow> validation_fails (load_from_db st pk) src vd))"

section \<open>Properties\<close>

subsection \<open>The rename pass\<close>

lemma format_int_examples:
  "format_int 1 = ''1''" "format_int 12 = ''12''" "format_int 305 = ''305''"
  by (simp_all add: format_int.simps digit_char_def)

text \<open>
  The suffix search entered with counter \<open>i\<close> returns the first candidate after \<open>i\<close>
  that is not a destination column name.
\<close>

lemma rename_search_least:
  "\<exists>n>i. rename_search dst c i = suffixed c n \<and> suffixed c n \<notin> set dst \<and>
     (\<forall>m. i < m \<and> m < n \<longrightarrow> suffixed c m \<in> set dst)"
proof (induction dst c i rule: rename_search.induct)
  case (1 dst c i)
  show ?case
  proof (cases "suffixed c (i + 1) \<notin> set dst")
    case True
    then have "rename_search dst c i = suffixed c (i + 1)"
      by (simp add: rename_search.simps [of dst c i])
    with True show ?thesis by (intro exI [of _ "i + 1"]) auto
  next
    case False
    then have eq: "rename_search dst c i = rename_search dst c (i + 1)"
      by (simp add: rename_search.simps [of dst c i])
    from False "1.IH" [OF refl refl] obtain n where n: "i + 1 < n"
      "rename_search dst c (i + 1) = suffixed c n" "suffixed c n \<notin> set dst"
      "\<forall>m. i + 1 < m \<and> m < n \<longrightarrow> suffixed c m \<in> set dst"
      by auto
    have "\<forall>m. i < m \<and> m < n \<longrightarrow> suffixed c m \<in> set dst"
    proof (intro allI impI)
      fix m assume m: "i < m \<and> m < n"
      show "suffixed c m \<in> set dst"
      proof (cases "m = i + 1")
        case True with False show ?thesis by simp
      next
        case False with m n(4) show ?thesis by auto
      qed
    qed
    with n eq show ?thesis by (intro exI [of _ n]) auto
  qed
qed

lemma autorename_map_acc:
  "autorename dst r src names =
     names @ map (\<lambda>c. if c = r \<or> c \<notin> set dst then c else rename_search dst c 0) src"
  by (induction src arbitrary: names) simp_all

lemmas run_rename =
  build_merge_info_def merge_request_def spec_dst_def spec_src_def clash_src_def columns_def
  rename_search.simps suffixed_def format_int.simps digit_char_def

text \<open>
  C1, as the code has it. Under the rename policy the list of new names has one name per
  source column, in the source's order. A column that is the source key, or whose name is
  not a destination column name, keeps its name. Any other column \<open>c\<close> gets \<open>c_n\<close> for
  the smallest positive \<open>n\<close> such that \<open>c_n\<close> is not a destination column name. The
  names assigned earlier in the pass play no part.
\<close>

theorem rename_least_suffix:
  assumes "dup_column vd = ''rename''" and "k < length (columns src)"
  shows "\<exists>names. autorename_column_names (build_merge_info dst src vd) = Some names \<and>
     length names = length (columns src) \<and>
     (columns src ! k = right_on vd \<or> columns src ! k \<notin> set (columns dst)
        \<longrightarrow> names ! k = columns src ! k) \<and>
     (columns src ! k \<noteq> right_on vd \<and> columns src ! k \<in> set (columns dst)
        \<longrightarrow> (\<exists>n>0. names ! k = suffixed (columns src ! k) n \<and>
              suffixed (columns src ! k) n \<notin> set (columns dst) \<and>
              (\<forall>m. 0 < m \<and> m < n \<longrightarrow> suffixed (columns src ! k) m \<in> set (columns dst))))"
proof -
  let ?f = "\<lambda>c. if c = right_on vd \<or> c \<notin> set (columns dst) then c
                else rename_search (columns dst) c 0"
  let ?names = "map ?f (columns src)"
  have a: "autorename_column_names (build_merge_info dst src vd) = Some ?names"
    using assms(1) by (simp add: build_merge_info_def autorename_map_acc)
  have k: "?names ! k = ?f (columns src ! k)"
    using assms(2) by (rule nth_map)
  have l: "length ?names = length (columns src)" by simp
  have keep: "columns src ! k = right_on vd \<or> columns src ! k \<notin> set (columns dst)
        \<longrightarrow> ?names ! k = columns src ! k"
    using k by auto
  have ren: "columns src ! k \<noteq> right_on vd \<and> columns src ! k \<in> set (columns dst)
        \<longrightarrow> (\<exists>n>0. ?names ! k = suffixed (columns src ! k) n \<and>
              suffixed (columns src ! k) n \<notin> set (columns dst) \<and>
              (\<forall>m. 0 < m \<and> m < n \<longrightarrow> suffixed (columns src ! k) m \<in> set (columns dst)))"
  proof
    assume c: "columns src ! k \<noteq> right_on vd \<and> columns src ! k \<in> set (columns dst)"
    then have "?names ! k = rename_search (columns dst) (columns src ! k) 0"
      using k by simp
    with rename_search_least [of 0 "columns dst" "columns src ! k"]
    show "\<exists>n>0. ?names ! k = suffixed (columns src ! k) n \<and>
              suffixed (columns src ! k) n \<notin> set (columns dst) \<and>
              (\<forall>m. 0 < m \<and> m < n \<longrightarrow> suffixed (columns src ! k) m \<in> set (columns dst))"
      by simp
  qed
  from a l keep ren show ?thesis by blast
qed

text \<open>
  The example of the spec's section 8: destination \<open>{id, name}\<close>, source \<open>{id, name}\<close>,
  key \<open>id\<close>. The second source column collides and gets \<open>name_1\<close>.
\<close>

theorem rename_least_suffix_witness:
  "dup_column (merge_request spec_src ''left'' ''id'' ''id'' ''rename'') = ''rename'' \<and>
   1 < length (columns spec_src) \<and>
   columns spec_src ! 1 \<noteq> right_on (merge_request spec_src ''left'' ''id'' ''id'' ''rename'') \<and>
   columns spec_src ! 1 \<in> set (columns spec_dst) \<and>
   (\<exists>names. autorename_column_names (build_merge_info spec_dst spec_src
        (merge_request spec_src ''left'' ''id'' ''id'' ''rename'')) = Some names \<and>
      names = [''id'', ''name_1''] \<and>
      (\<exists>n>0. names ! 1 = suffixed ''name'' n \<and> suffixed ''name'' n \<notin> set (columns spec_dst)))"
proof -
  let ?vd = "merge_request spec_src ''left'' ''id'' ''id'' ''rename''"
  have h1: "dup_column ?vd = ''rename''" by (simp add: merge_request_def)
  have h2: "1 < length (columns spec_src)" by (simp add: spec_src_def columns_def)
  have c: "columns spec_src ! 1 = ''name''" by (simp add: spec_src_def columns_def)
  have h3: "columns spec_src ! 1 \<noteq> right_on ?vd"
    by (simp add: spec_src_def columns_def merge_request_def)
  have h4: "columns spec_src ! 1 \<in> set (columns spec_dst)"
    by (simp add: spec_src_def spec_dst_def columns_def)
  have v: "autorename_column_names (build_merge_info spec_dst spec_src ?vd)
      = Some [''id'', ''name_1'']"
    by (simp add: run_rename)
  from rename_least_suffix [OF h1 h2, of spec_dst] h3 h4 c v
  have "\<exists>n>0. [''id'', ''name_1''] ! 1 = suffixed ''name'' n \<and>
      suffixed ''name'' n \<notin> set (columns spec_dst)"
    by auto
  with h1 h2 h3 h4 v show ?thesis by simp
qed

text \<open>
  C1 as the spec states it fails: with destination \<open>{id, name}\<close> and source
  \<open>{id, name_1, name}\<close>, \<open>name_1\<close> does not collide and keeps its name, and \<open>name\<close>
  is then renamed to \<open>name_1\<close> as well, the name assigned one step earlier.
\<close>

theorem rename_ignores_assigned_names:
  "check_parameters (Some spec_dst) clash_src
      (merge_request clash_src ''left'' ''id'' ''id'' ''rename'') = Inr spec_dst \<and>
   autorename_column_names (build_merge_info spec_dst clash_src
      (merge_request clash_src ''left'' ''id'' ''id'' ''rename''))
     = Some [''id'', ''name_1'', ''name_1'']"
  by (simp add: run_rename check_parameters_def getitem_def is_unique_column_def)

subsection \<open>The parameter checks\<close>

text \<open>When the checks pass: what they have established.\<close>

lemma check_parameters_Inr:
  assumes "check_parameters dst_df src vd = Inr dst"
  shows "dst_df = Some dst"
    and "how vd \<in> set [''left'', ''right'', ''outer'', ''inner'']"
    and "\<exists>col. map_of dst (left_on vd) = Some col \<and> distinct col"
    and "right_on vd \<in> set (columns src)"
    and "\<exists>col. map_of src (right_on vd) = Some col \<and> distinct col"
    and "dup_column vd = ''override'' \<or> dup_column vd = ''rename''"
  using assms
  by (auto simp: check_parameters_def getitem_def is_unique_column_def
      split: if_splits option.splits sum.splits)

subsection \<open>The merge dictionary\<close>

text \<open>
  C4. Under the override policy the columns to drop are the names that are columns of both
  tables, but \<open>left_on\<close>; no list of new names is made, and the names handed on for the
  source columns are the source's own.
\<close>

theorem override_columns_to_drop:
  assumes "dup_column vd = ''override''"
  shows "override_columns_names (build_merge_info dst src vd)
           = set (columns dst) \<inter> set (columns src) - {left_on vd}
         \<and> autorename_column_names (build_merge_info dst src vd) = None
         \<and> rename_column_names (build_merge_info dst src vd) = columns src"
  using assms by (simp add: build_merge_info_def)

text \<open>
  The spec's example: destination \<open>{id, name, age}\<close>, source \<open>{id, name}\<close>, key
  \<open>id\<close>; the columns to drop are \<open>{name}\<close>.
\<close>

theorem override_columns_to_drop_witness:
  "dup_column (merge_request spec_src ''left'' ''id'' ''id'' ''override'') = ''override'' \<and>
   override_columns_names (build_merge_info people_dst spec_src
       (merge_request spec_src ''left'' ''id'' ''id'' ''override'')) = {''name''} \<and>
   autorename_column_names (build_merge_info people_dst spec_src
       (merge_request spec_src ''left'' ''id'' ''id'' ''override'')) = None \<and>
   rename_column_names (build_merge_info people_dst spec_src
       (merge_request spec_src ''left'' ''id'' ''id'' ''override'')) = [''id'', ''name'']"
proof -
  let ?vd = "merge_request spec_src ''left'' ''id'' ''id'' ''override''"
  have h: "dup_column ?vd = ''override''" by (simp add: merge_request_def)
  have s: "set (columns people_dst) \<inter> set (columns spec_src) - {left_on ?vd} = {''name''}"
    by (auto simp: people_dst_def spec_src_def columns_def merge_request_def)
  have c: "columns spec_src = [''id'', ''name'']" by (simp add: spec_src_def columns_def)
  from override_columns_to_drop [OF h, of people_dst spec_src] h s c
  show ?thesis by simp
qed

text \<open>
  C3, as the code has it. For every merge request that passes the checks: the source key
  \<open>right_on\<close> keeps its name in the list of new names, and \<open>left_on\<close> is never among
  the columns to drop. \<open>right_on\<close> is among the columns to drop exactly when the policy
  is override, \<open>right_on\<close> differs from \<open>left_on\<close> and the destination has a column
  of that name.
\<close>

theorem key_preservation:
  assumes "check_parameters (Some dst) src vd = Inr dst"
  shows "(\<forall>names k. autorename_column_names (build_merge_info dst src vd) = Some names
            \<and> k < length (columns src) \<and> columns src ! k = right_on vd
            \<longrightarrow> names ! k = right_on vd)
         \<and> left_on vd \<notin> override_columns_names (build_merge_info dst src vd)
         \<and> (right_on vd \<in> override_columns_names (build_merge_info dst src vd)
              \<longleftrightarrow> dup_column vd = ''override'' \<and> right_on vd \<noteq> left_on vd
                   \<and> right_on vd \<in> set (columns dst))"
proof -
  have r: "right_on vd \<in> set (columns src)"
    using assms by (rule check_parameters_Inr(4))
  have a: "\<forall>names k. autorename_column_names (build_merge_info dst src vd) = Some names
            \<and> k < length (columns src) \<and> columns src ! k = right_on vd
            \<longrightarrow> names ! k = right_on vd"
    by (auto simp: build_merge_info_def autorename_map_acc)
  have b: "left_on vd \<notin> override_columns_names (build_merge_info dst src vd)"
    by (simp add: build_merge_info_def)
  have c: "right_on vd \<in> override_columns_names (build_merge_info dst src vd)
              \<longleftrightarrow> dup_column vd = ''override'' \<and> right_on vd \<noteq> left_on vd
                   \<and> right_on vd \<in> set (columns dst)"
    using r by (auto simp: build_merge_info_def)
  from a b c show ?thesis by blast
qed

theorem key_preservation_witness:
  "check_parameters (Some spec_dst) spec_src
      (merge_request spec_src ''left'' ''id'' ''id'' ''rename'') = Inr spec_dst \<and>
   autorename_column_names (build_merge_info spec_dst spec_src
      (merge_request spec_src ''left'' ''id'' ''id'' ''rename'')) = Some [''id'', ''name_1''] \<and>
   columns spec_src ! 0 = right_on (merge_request spec_src ''left'' ''id'' ''id'' ''rename'') \<and>
   [''id'', ''name_1''] ! 0 = right_on (merge_request spec_src ''left'' ''id'' ''id'' ''rename'') \<and>
   left_on (merge_request spec_src ''left'' ''id'' ''id'' ''rename'')
     \<notin> override_columns_names (build_merge_info spec_dst spec_src
          (merge_request spec_src ''left'' ''id'' ''id'' ''rename''))"
proof -
  let ?vd = "merge_request spec_src ''left'' ''id'' ''id'' ''rename''"
  have h: "check_parameters (Some spec_dst) spec_src ?vd = Inr spec_dst"
    by (simp add: check_parameters_def getitem_def is_unique_column_def merge_request_def
        spec_dst_def spec_src_def columns_def)
  have v: "autorename_column_names (build_merge_info spec_dst spec_src ?vd)
      = Some [''id'', ''name_1'']"
    by (simp add: run_rename)
  have k: "0 < length (columns spec_src)" "columns spec_src ! 0 = right_on ?vd"
    by (simp_all add: spec_src_def columns_def merge_request_def)
  from key_preservation [OF h] v k
  have "[''id'', ''name_1''] ! 0 = right_on ?vd"
    and "left_on ?vd \<notin> override_columns_names (build_merge_info spec_dst spec_src ?vd)"
    by blast+
  with h v k show ?thesis by simp
qed

text \<open>
  C3 as the spec states it fails under the override policy when the keys differ: with
  destination \<open>{id, code, name}\<close> keyed by \<open>id\<close> and source \<open>{code, name}\<close> keyed by
  \<open>code\<close>, the request passes the checks and \<open>code\<close>, the source key, is among the
  columns to drop.
\<close>

theorem override_drops_right_on:
  "check_parameters (Some coded_dst) coded_src
      (merge_request coded_src ''left'' ''id'' ''code'' ''override'') = Inr coded_dst \<and>
   right_on (merge_request coded_src ''left'' ''id'' ''code'' ''override'')
     \<in> override_columns_names (build_merge_info coded_dst coded_src
          (merge_request coded_src ''left'' ''id'' ''code'' ''override'')) \<and>
   override_columns_names (build_merge_info coded_dst coded_src
          (merge_request coded_src ''left'' ''id'' ''code'' ''override'')) = {''code'', ''name''}"
proof -
  let ?vd = "merge_request coded_src ''left'' ''id'' ''code'' ''override''"
  have h: "check_parameters (Some coded_dst) coded_src ?vd = Inr coded_dst"
    by (simp add: check_parameters_def getitem_def is_unique_column_def merge_request_def
        coded_dst_def coded_src_def columns_def)
  have s: "override_columns_names (build_merge_info coded_dst coded_src ?vd)
      = {''code'', ''name''}"
    by (auto simp: build_merge_info_def merge_request_def coded_dst_def coded_src_def
        columns_def)
  have r: "right_on ?vd = ''code''" by (simp add: merge_request_def)
  from h s r show ?thesis by simp
qed

subsection \<open>The handlers\<close>

lemmas run_handlers =
  MatrixMerge_put_def MatrixMerge_get_def MatrixOps_get_def MatrixOps_put_def
  MatrixOps_post_def MatrixOps_delete_def MatrixOps_override_def get_object_def
  objects_get_def load_from_db_def check_parameters_def getitem_def is_unique_column_def
  example_env_def example_state_def instructor_def stranger_def same_lengths_def
  merge_request_def spec_dst_def spec_src_def columns_def

text \<open>
  C2. The handler has no membership test for \<open>left_on\<close>: line 167 subscripts the
  destination frame at once. With a \<open>left_on\<close> that is not a destination column the
  request ends in the KeyError of that subscript, which nothing catches, and not in an
  APIException; for \<open>right_on\<close>, lines 172 to 174 test membership first and raise the
  APIException that names the column.
\<close>

theorem missing_left_on_is_uncaught_KeyError:
  "MatrixMerge_put example_env instructor 1
      (Valid (merge_request spec_src ''left'' ''missing'' ''id'' ''rename'')) example_state
     = (Inl (KeyError ''missing''), example_state) \<and>
   MatrixMerge_put example_env instructor 1
      (Valid (merge_request spec_src ''left'' ''id'' ''missing'' ''rename'')) example_state
     = (Inl (APIException ''column missing not found in data frame''), example_state)"
  by (simp add: run_handlers)

text \<open>
  C9. A POST for a workflow that has a stored table is turned down for that reason, and
  the store is left as it was, whoever asks and whether or not the workflow exists for
  that user or is locked: the stored table is looked at before \<open>get_object\<close> runs.
\<close>

theorem post_checks_matrix_first:
  assumes "load_from_db st pk \<noteq> None"
  shows "MatrixOps_post e u pk request st
           = (Inl (APIException ''Post request requires workflow without a matrix''), st)"
  using assms by (simp add: MatrixOps_post_def)

text \<open>
  Workflow 2 has a table and is locked; a stranger does not own it. Both get the answer
  about the table, although \<open>get_object\<close> would turn both down.
\<close>

theorem post_checks_matrix_first_witness:
  "load_from_db example_state 2 \<noteq> None \<and>
   get_object example_env example_state instructor 2
     = Inl (APIException ''Workflow is locked by another user'') \<and>
   get_object example_env example_state stranger 2 = Inl (APIException ''Incorrect object'') \<and>
   MatrixOps_post example_env instructor 2 (Valid spec_src) example_state
     = (Inl (APIException ''Post request requires workflow without a matrix''), example_state) \<and>
   MatrixOps_post example_env stranger 2 (Valid spec_src) example_state
     = (Inl (APIException ''Post request requires workflow without a matrix''), example_state)"
proof -
  have h: "load_from_db example_state 2 \<noteq> None"
    by (simp add: load_from_db_def example_state_def)
  have g: "get_object example_env example_state instructor 2
     = Inl (APIException ''Workflow is locked by another user'')"
    "get_object example_env example_state stranger 2 = Inl (APIException ''Incorrect object'')"
    by (simp_all add: get_object_def objects_get_def example_env_def example_state_def
        instructor_def stranger_def)
  from h g post_checks_matrix_first [OF h, of example_env instructor "Valid spec_src"]
    post_checks_matrix_first [OF h, of example_env stranger "Valid spec_src"]
  show ?thesis by simp
qed

text \<open>
  C6. For a workflow that has a stored table, POST is turned down with
  the message that it requires a workflow without a matrix, and the store is unchanged.
  PUT on the same state, for a request that \<open>get_object\<close> lets through and whose data
  make a data frame, answers 201 and the stored table is the new one; the other workflows'
  tables and the workflow records are as before.
\<close>

theorem post_rejects_put_replaces:
  assumes "load_from_db st pk = Some old"
  shows "MatrixOps_post e u pk request st
           = (Inl (APIException ''Post request requires workflow without a matrix''), st)
         \<and> (\<forall>wflow data df0 df.
               get_object e st u pk = Inr wflow \<and> request = Valid data
               \<and> pd_DataFrame e data = Some df0 \<and> detect_datetime_columns e df0 = Some df
               \<longrightarrow> (\<exists>st'. MatrixOps_put e u pk request st
                             = (Inr (Response (FrameData (Some data)) 201), st')
                         \<and> load_from_db st' pk = Some df
                         \<and> (\<forall>pk'. pk' \<noteq> pk \<longrightarrow> load_from_db st' pk' = load_from_db st pk')
                         \<and> workflows st' = workflows st))"
  using assms
  by (simp add: MatrixOps_post_def MatrixOps_put_def MatrixOps_override_def
      store_dataframe_in_db_def load_from_db_def)

theorem post_rejects_put_replaces_witness:
  "load_from_db example_state 1 = Some spec_dst \<and>
   MatrixOps_post example_env instructor 1 (Valid spec_src) example_state
     = (Inl (APIException ''Post request requires workflow without a matrix''), example_state) \<and>
   get_object example_env example_state instructor 1
     = Inr \<lparr>wf_user = 7, wf_session_key = ''''\<rparr> \<and>
   pd_DataFrame example_env spec_src = Some spec_src \<and>
   detect_datetime_columns example_env spec_src = Some spec_src \<and>
   fst (MatrixOps_put example_env instructor 1 (Valid spec_src) example_state)
     = Inr (Response (FrameData (Some spec_src)) 201) \<and>
   load_from_db (snd (MatrixOps_put example_env instructor 1 (Valid spec_src) example_state)) 1
     = Some spec_src"
proof -
  have h: "load_from_db example_state 1 = Some spec_dst"
    by (simp add: load_from_db_def example_state_def)
  have g: "get_object example_env example_state instructor 1
     = Inr \<lparr>wf_user = 7, wf_session_key = ''''\<rparr>"
    by (simp add: get_object_def objects_get_def example_env_def example_state_def
        instructor_def)
  have d: "pd_DataFrame example_env spec_src = Some spec_src"
    "detect_datetime_columns example_env spec_src = Some spec_src"
    by (simp_all add: example_env_def same_lengths_def spec_src_def)
  from post_rejects_put_replaces [OF h, of example_env instructor "Valid spec_src"] g d
  have "MatrixOps_post example_env instructor 1 (Valid spec_src) example_state
     = (Inl (APIException ''Post request requires workflow without a matrix''), example_state)"
    and "\<exists>st'. MatrixOps_put example_env instructor 1 (Valid spec_src) example_state
                  = (Inr (Response (FrameData (Some spec_src)) 201), st')
               \<and> load_from_db st' 1 = Some spec_src"
    by auto
  with h g d show ?thesis by auto
qed

text \<open>
  C8, as the code has it. For a workflow that is locked, GET, PUT and DELETE of the matrix
  and GET and PUT of the merge are all turned down and the store is unchanged, whatever the
  request says and whatever \<^verbatim>\<open>perform_dataframe_upload_merge\<close> would do: it is not
  called. The message is that the workflow is locked when the lookup returns the workflow
  to the caller, a superuser or the owner; for any other caller the lookup fails first and
  the message is that of the failed lookup.
\<close>

theorem locked_workflow_rejected:
  assumes "workflows st pk = Some wflow" and "is_locked e wflow"
  shows "(let msg = (if is_superuser u \<or> wf_user wflow = user_id u
                     then ''Workflow is locked by another user'' else ''Incorrect object'')
          in MatrixOps_get e u pk st = (Inl (APIException msg), st)
             \<and> MatrixOps_put e u pk matrix_req st = (Inl (APIException msg), st)
             \<and> MatrixOps_delete e u pk st = (Inl (APIException msg), st)
             \<and> MatrixMerge_get e u pk st = (Inl (APIException msg), st)
             \<and> (\<forall>p. MatrixMerge_put (e\<lparr>perform_dataframe_upload_merge := p\<rparr>) u pk
                       merge_req st = (Inl (APIException msg), st)))"
  using assms
  by (simp add: MatrixOps_get_def MatrixOps_put_def MatrixOps_override_def
      MatrixOps_delete_def MatrixMerge_get_def MatrixMerge_put_def get_object_def
      objects_get_def)

text \<open>Workflow 2 is locked; its owner is told so by all five handlers.\<close>

theorem locked_workflow_rejected_witness:
  "workflows example_state 2 = Some \<lparr>wf_user = 7, wf_session_key = ''s1''\<rparr> \<and>
   is_locked example_env \<lparr>wf_user = 7, wf_session_key = ''s1''\<rparr> \<and>
   MatrixOps_get example_env instructor 2 example_state
     = (Inl (APIException ''Workflow is locked by another user''), example_state) \<and>
   MatrixOps_put example_env instructor 2 (Valid spec_src) example_state
     = (Inl (APIException ''Workflow is locked by another user''), example_state) \<and>
   MatrixOps_delete example_env instructor 2 example_state
     = (Inl (APIException ''Workflow is locked by another user''), example_state) \<and>
   MatrixMerge_get example_env instructor 2 example_state
     = (Inl (APIException ''Workflow is locked by another user''), example_state) \<and>
   (\<forall>p. MatrixMerge_put (example_env\<lparr>perform_dataframe_upload_merge := p\<rparr>) instructor 2
          (Valid (merge_request spec_src ''left'' ''id'' ''id'' ''rename'')) example_state
     = (Inl (APIException ''Workflow is locked by another user''), example_state))"
proof -
  have h1: "workflows example_state 2 = Some \<lparr>wf_user = 7, wf_session_key = ''s1''\<rparr>"
    by (simp add: example_state_def)
  have h2: "is_locked example_env \<lparr>wf_user = 7, wf_session_key = ''s1''\<rparr>"
    by (simp add: example_env_def)
  have o: "wf_user \<lparr>wf_user = 7, wf_session_key = ''s1''\<rparr> = user_id instructor"
    by (simp add: instructor_def)
  from locked_workflow_rejected [OF h1 h2, of instructor "Valid spec_src"
      "Valid (merge_request spec_src ''left'' ''id'' ''id'' ''rename'')"] h1 h2 o
  show ?thesis by (simp add: Let_def)
qed

text \<open>
  C8 as the spec states it fails for a caller who is neither a superuser nor the owner:
  asked by a stranger, GET on the locked workflow 2 is turned down by the lookup, with its
  message and not the one about the lock.
\<close>

theorem locked_workflow_stranger_gets_lookup_error:
  "workflows example_state 2 = Some \<lparr>wf_user = 7, wf_session_key = ''s1''\<rparr> \<and>
   is_locked example_env \<lparr>wf_user = 7, wf_session_key = ''s1''\<rparr> \<and>
   MatrixOps_get example_env stranger 2 example_state
     = (Inl (APIException ''Incorrect object''), example_state)"
  by (simp add: MatrixOps_get_def get_object_def objects_get_def example_env_def
      example_state_def stranger_def)

subsection \<open>RestrictedFileField\<close>

text \<open>
  A value without a content type is returned as it is, whatever the field holds.
\<close>

lemma clean_without_content_type:
  "content_type data = None \<Longrightarrow> clean py field (Inr data) = Inr data"
  by (simp add: clean_def)

text \<open>
  With a collection of content types and a number as the limit, a value with a content
  type is refused exactly when the type is not allowed, or it is allowed and the value has
  a size above the limit; otherwise it is returned as it is.
\<close>

lemma clean_with_int_limit:
  assumes "content_type data = Some ct" and "content_types field = Some allowed"
    and "max_upload_size field = PyInt m"
  shows "clean py field (Inr data) =
     (if ct \<notin> set allowed then Inl (ValidationError (UnsupportedType ct))
      else case size data of
             None \<Rightarrow> Inr data
           | Some sz \<Rightarrow> if sz > m then Inl (ValidationError (FileTooLarge (PyInt m) sz))
                        else Inr data)"
  using assms by (simp add: clean_def size_gt_def split: option.splits)

text \<open>
  C10. A field made without \<^verbatim>\<open>max_upload_size\<close> holds the preference as a string.
  With the preference 2000000 and the type \<open>text/csv\<close> allowed, a \<open>text/csv\<close> upload
  of 3000000 bytes is not refused with a validation error: the comparison of line 24 is
  between an int and a string, so Python 2 lets the upload through and Python 3 raises
  TypeError. The same upload against the same limit given as a number is refused.
\<close>

theorem string_limit_never_refuses_size:
  "clean Python2 (RestrictedFileField_init ''2000000'' (Some [''text/csv'']) None)
      (Inr \<lparr>file_name = ''big.csv'', content_type = Some ''text/csv'', size = Some 3000000\<rparr>)
     = Inr \<lparr>file_name = ''big.csv'', content_type = Some ''text/csv'', size = Some 3000000\<rparr> \<and>
   clean Python3 (RestrictedFileField_init ''2000000'' (Some [''text/csv'']) None)
      (Inr \<lparr>file_name = ''big.csv'', content_type = Some ''text/csv'', size = Some 3000000\<rparr>)
     = Inl PyTypeError \<and>
   clean Python2 (RestrictedFileField_init ''2000000'' (Some [''text/csv''])
        (Some (PyInt 2000000)))
      (Inr \<lparr>file_name = ''big.csv'', content_type = Some ''text/csv'', size = Some 3000000\<rparr>)
     = Inl (ValidationError (FileTooLarge (PyInt 2000000) 3000000))"
  by (simp add: clean_def RestrictedFileField_init_def size_gt_def truthy_def)

subsection \<open>Failed and successful merge requests\<close>

text \<open>A request that fails validation does not pass the checks.\<close>

lemma key_fails_missing: "key \<notin> set (columns table) \<Longrightarrow> key_fails table key"
  by (simp add: key_fails_def columns_def map_of_eq_None_iff [THEN iffD2])

lemma validation_fails_check:
  assumes "validation_fails dst_df src vd"
  shows "\<exists>err. check_parameters dst_df src vd = Inl err"
proof (cases "check_parameters dst_df src vd")
  case (Inl err)
  then show ?thesis by blast
next
  case (Inr d)
  note ok = check_parameters_Inr [OF Inr]
  from ok(3) have "\<not> key_fails d (left_on vd)" by (auto simp: key_fails_def)
  with ok(1) have "\<not> (case dst_df of None \<Rightarrow> True | Some dst \<Rightarrow> key_fails dst (left_on vd))"
    by simp
  moreover from ok(5) have "\<not> key_fails src (right_on vd)" by (auto simp: key_fails_def)
  moreover from ok(2) have "how vd \<in> set [''left'', ''right'', ''outer'', ''inner'']" .
  moreover from ok(6) have "dup_column vd \<in> set [''override'', ''rename'']" by auto
  ultimately have "\<not> validation_fails dst_df src vd"
    unfolding validation_fails_def by blast
  with assms show ?thesis by blast
qed

lemma get_object_perform:
  "get_object (e\<lparr>perform_dataframe_upload_merge := p\<rparr>) st u pk = get_object e st u pk"
  by (simp add: get_object_def split: option.splits)

text \<open>
  C7, as the code has it. A failed merge request ends with the store as it was and with
  the same answer whatever \<^verbatim>\<open>perform_dataframe_upload_merge\<close> is: the merge is not
  called. For a request that fails validation, or whose source table cannot be built, the
  answer is a raised exception. For a request the serializer refuses the handler does
  not raise: it returns the response 400 with the serializer's errors, unless
  \<open>get_object\<close> has raised before.
\<close>

theorem failed_merge_leaves_store:
  assumes "request_fails e st pk request"
  shows "\<exists>r. (\<forall>p. MatrixMerge_put (e\<lparr>perform_dataframe_upload_merge := p\<rparr>) u pk request st
                  = (r, st))
          \<and> (case request of
                Invalid errors \<Rightarrow>
                  r = (case get_object e st u pk of
                         Inl err \<Rightarrow> Inl err
                       | Inr wflow \<Rightarrow> Inr (Response (Errors errors) 400))
              | Valid vd \<Rightarrow> (\<exists>err. r = Inl err))"
proof (cases request)
  case (Invalid errors)
  show ?thesis
  proof (cases "get_object e st u pk")
    case (Inl err)
    with Invalid show ?thesis by (simp add: MatrixMerge_put_def get_object_perform)
  next
    case (Inr wflow)
    with Invalid show ?thesis by (simp add: MatrixMerge_put_def get_object_perform)
  qed
next
  case (Valid vd)
  show ?thesis
  proof (cases "get_object e st u pk")
    case (Inl err)
    with Valid show ?thesis by (simp add: MatrixMerge_put_def get_object_perform)
  next
    case admitted: (Inr wflow)
    show ?thesis
    proof (cases "pd_DataFrame e (src_df vd)")
      case None
      with Valid admitted show ?thesis by (simp add: MatrixMerge_put_def get_object_perform)
    next
      case (Some src)
      with assms Valid have "validation_fails (load_from_db st pk) src vd"
        by (simp add: request_fails_def)
      from validation_fails_check [OF this] obtain err
        where "check_parameters (load_from_db st pk) src vd = Inl err" by blast
      with Valid admitted Some show ?thesis
        by (simp add: MatrixMerge_put_def get_object_perform)
    qed
  qed
qed

text \<open>
  A request whose dup policy is \<open>merge\<close> passes every check but the last; a request
  with the join type \<open>cross\<close> for workflow 3, which has no table, fails the first.
\<close>

theorem failed_merge_leaves_store_witness:
  "request_fails example_env example_state 1
      (Valid (merge_request spec_src ''left'' ''id'' ''id'' ''merge'')) \<and>
   (\<forall>p. MatrixMerge_put (example_env\<lparr>perform_dataframe_upload_merge := p\<rparr>) instructor 1
          (Valid (merge_request spec_src ''left'' ''id'' ''id'' ''merge'')) example_state
     = (Inl (APIException ''dup_column must be override or rename''), example_state)) \<and>
   request_fails example_env example_state 3
      (Valid (merge_request spec_src ''cross'' ''id'' ''id'' ''rename'')) \<and>
   (\<forall>p. MatrixMerge_put (example_env\<lparr>perform_dataframe_upload_merge := p\<rparr>) instructor 3
          (Valid (merge_request spec_src ''cross'' ''id'' ''id'' ''rename'')) example_state
     = (Inl (APIException ''how must be one of left, right, outer or inner''), example_state))"
proof -
  let ?a = "Valid (merge_request spec_src ''left'' ''id'' ''id'' ''merge'')"
  let ?b = "Valid (merge_request spec_src ''cross'' ''id'' ''id'' ''rename'')"
  have e: "example_env\<lparr>perform_dataframe_upload_merge := perform_merge_model\<rparr> = example_env"
    by (simp add: example_env_def)
  have ha: "request_fails example_env example_state 1 ?a"
    by (simp add: request_fails_def validation_fails_def example_env_def merge_request_def
        same_lengths_def spec_src_def)
  have hb: "request_fails example_env example_state 3 ?b"
    by (simp add: request_fails_def validation_fails_def example_env_def merge_request_def
        same_lengths_def spec_src_def)
  have run_a: "MatrixMerge_put example_env instructor 1 ?a example_state
     = (Inl (APIException ''dup_column must be override or rename''), example_state)"
    by (simp add: run_handlers)
  have run_b: "MatrixMerge_put example_env instructor 3 ?b example_state
     = (Inl (APIException ''how must be one of left, right, outer or inner''), example_state)"
    by (simp add: run_handlers)
  from failed_merge_leaves_store [OF ha, of instructor]
  obtain ra where ra: "\<forall>p. MatrixMerge_put (example_env\<lparr>perform_dataframe_upload_merge := p\<rparr>)
      instructor 1 ?a example_state = (ra, example_state)"
    by blast
  from ra [THEN spec, of perform_merge_model] run_a
  have "ra = Inl (APIException ''dup_column must be override or rename'')"
    by (simp add: e)
  with ra have ca: "\<forall>p. MatrixMerge_put (example_env\<lparr>perform_dataframe_upload_merge := p\<rparr>)
      instructor 1 ?a example_state
      = (Inl (APIException ''dup_column must be override or rename''), example_state)"
    by simp
  from failed_merge_leaves_store [OF hb, of instructor]
  obtain rb where rb: "\<forall>p. MatrixMerge_put (example_env\<lparr>perform_dataframe_upload_merge := p\<rparr>)
      instructor 3 ?b example_state = (rb, example_state)"
    by blast
  from rb [THEN spec, of perform_merge_model] run_b
  have "rb = Inl (APIException ''how must be one of left, right, outer or inner'')"
    by (simp add: e)
  with rb have cb: "\<forall>p. MatrixMerge_put (example_env\<lparr>perform_dataframe_upload_merge := p\<rparr>)
      instructor 3 ?b example_state
      = (Inl (APIException ''how must be one of left, right, outer or inner''), example_state)"
    by simp
  from ha hb ca cb show ?thesis by blast
qed

text \<open>
  C7 as the spec states it fails for a request the serializer refuses: the handler does
  not raise, it returns a response, number 400, with the serializer's errors (lines 149
  to 151).
\<close>

theorem serializer_refusal_is_returned_not_raised:
  "MatrixMerge_put example_env instructor 1 (Invalid ''src_df: This field is required.'')
      example_state
     = (Inr (Response (Errors ''src_df: This field is required.'') 400), example_state)"
  by (simp add: MatrixMerge_put_def get_object_def objects_get_def example_env_def
      example_state_def instructor_def)







end
